theory Spec2Isabelle
  imports Complex_Main
begin

section \<open>Values, exceptions and dictionaries\<close>

text \<open>
  The dashboard server of \<^verbatim>\<open>web_server.py\<close> answers two requests from the same
  sources: \<^verbatim>\<open>get_bot_status_json\<close> (the machine-readable status) and
  \<^verbatim>\<open>generate_dashboard_html\<close> (the page). Every Python exception is a value
  \<open>Exn m\<close>, where \<open>m\<close> stands for what \<^verbatim>\<open>str(e)\<close> prints (for the exceptions
  the interpreter raises itself the text is shortened; no property depends on it); a
  computation that may raise has a result of type \<open>exn + 'a\<close> with \<open>Inl\<close> for the
  raise.
\<close>

datatype exn = Exn string

fun str_exn :: "exn \<Rightarrow> string" where
  "str_exn (Exn m) = m"

text \<open>
  The values that end up in a status object or a ledger cell. A Python \<^verbatim>\<open>dict\<close>
  keeps its insertion order, so it is an association list.
\<close>

datatype pyval =
    PNone
  | PBool bool
  | PInt int
  | PFloat real
  | PNaN
  | PStr string
  | PList "pyval list"
  | PDict "(string \<times> pyval) list"

text \<open>\<^verbatim>\<open>d[k] = v\<close>: an existing key keeps its place and takes the new value.\<close>

fun dict_set :: "('k \<times> 'v) list \<Rightarrow> 'k \<Rightarrow> 'v \<Rightarrow> ('k \<times> 'v) list" where
  "dict_set [] k v = [(k, v)]"
| "dict_set ((k', v') # d) k v =
     (if k' = k then (k', v) # d else (k', v') # dict_set d k v)"

text \<open>\<^verbatim>\<open>d.get(k, default)\<close>.\<close>

definition dict_get :: "('k \<times> 'v) list \<Rightarrow> 'k \<Rightarrow> 'v \<Rightarrow> 'v" where
  "dict_get d k dflt = (case map_of d k of Some v \<Rightarrow> v | None \<Rightarrow> dflt)"

text \<open>\<^verbatim>\<open>d[k]\<close> on a dictionary of string keys: a missing key raises KeyError.\<close>

definition dict_item :: "(string \<times> 'v) list \<Rightarrow> string \<Rightarrow> exn + 'v" where
  "dict_item d k = (case map_of d k of Some v \<Rightarrow> Inr v | None \<Rightarrow> Inl (Exn (''KeyError: '' @ k)))"

text \<open>
  \<^verbatim>\<open>key['APCA-API-KEY-ID']\<close> on whatever \<^verbatim>\<open>json.loads\<close> returned: only a
  dictionary can be subscripted by a string.
\<close>

fun py_getitem :: "pyval \<Rightarrow> string \<Rightarrow> exn + pyval" where
  "py_getitem (PDict d) k = dict_item d k"
| "py_getitem v k = Inl (Exn ''TypeError: not subscriptable by a string'')"

section \<open>The broker and the environment of one request\<close>

text \<open>
  The account and the clock are what the broker returns. The server converts the three
  amounts with \<^verbatim>\<open>float(account.cash)\<close> and so on (the broker sends them as text);
  each field holds the outcome of that conversion, which raises on text that is not a
  number.
\<close>

record account =
  cash :: "exn + real"
  portfolio_value :: "exn + real"
  buying_power :: "exn + real"
  pattern_day_trader :: bool
  daytrade_count :: int

record clock =
  is_open :: bool
  next_open :: string

type_synonym position = string

text \<open>
  One connected \<^verbatim>\<open>alpaca.REST\<close> object, by the outcome of each of its calls during
  the request. \<open>get_latest_trade b t\<close> is the outcome of the two statements the server
  guards together: the call and \<^verbatim>\<open>float(trade.price)\<close>. Within one request a
  symbol that is asked for twice gets the same answer.
\<close>

record broker =
  get_account :: "exn + account"
  get_clock :: "exn + clock"
  list_positions :: "exn + position list"
  get_latest_trade :: "string \<Rightarrow> exn + real"

text \<open>A pandas data frame: the column labels and the rows, oldest first.\<close>

record dataframe =
  columns :: "string list"
  rows :: "pyval list list"

text \<open>
  Everything a request reads from outside the server:
  \<^item> \<open>auth_exists\<close>, \<open>tickers_exists\<close>, \<open>orders_exists\<close>, \<open>first_trade_exists\<close>:
    \<^verbatim>\<open>os.path.exists\<close> of \<^verbatim>\<open>AUTH/auth.txt\<close>, \<^verbatim>\<open>TICKERS/my_tickers.txt\<close>,
    \<^verbatim>\<open>Orders.csv\<close> and \<^verbatim>\<open>FirstTrade.csv\<close>;
  \<^item> \<open>auth_json\<close>: the outcome of \<^verbatim>\<open>json.loads(open(AUTH_FILE, 'r').read())\<close>;
  \<^item> \<open>alpaca_rest\<close>: the outcome of \<^verbatim>\<open>alpaca.REST(key_id, secret, ...)\<close>;
  \<^item> \<open>tickers_file\<close>: the outcome of opening the ticker file and of
    \<^verbatim>\<open>f.read().upper().split()\<close>;
  \<^item> \<open>read_csv\<close>: the outcome of \<^verbatim>\<open>pd.read_csv(ORDERS_CSV_FILE)\<close>;
  \<^item> \<open>now_iso\<close>, \<open>now_et\<close>: the clock readings \<^verbatim>\<open>datetime.now().isoformat()\<close>
    and \<^verbatim>\<open>datetime.now(et_tz)\<close>;
  \<^item> \<open>py_hash\<close>: the interpreter's \<^verbatim>\<open>hash\<close> on strings, which is fixed within
    one process and differs between processes.
\<close>

record env =
  auth_exists :: bool
  tickers_exists :: bool
  auth_json :: "exn + pyval"
  alpaca_rest :: "pyval \<Rightarrow> pyval \<Rightarrow> exn + broker"
  tickers_file :: "exn + string list"
  orders_exists :: bool
  read_csv :: "exn + dataframe"
  first_trade_exists :: bool
  now_iso :: string
  now_et :: string
  py_hash :: "string \<Rightarrow> int"

definition UNNAMED_COLUMN :: string where
  "UNNAMED_COLUMN = ''Unnamed: 0''"

section \<open>Ticker prices\<close>

record quote =
  symbol :: string
  price :: real

definition demo_prices :: "(string \<times> real) list" where
  "demo_prices = [(''AAPL'', 175.25), (''TSLA'', 245.80), (''AMZN'', 135.90), (''MA'', 425.60)]"

text \<open>
  The body of the loop of \<^verbatim>\<open>get_ticker_data\<close> for one ticker: the quote it appends.
  Neither the demo branch nor the handler can raise.
\<close>

fun ticker_quote :: "(string \<Rightarrow> int) \<Rightarrow> broker option \<Rightarrow> bool \<Rightarrow> string \<Rightarrow> quote" where
  "ticker_quote h None demo ticker =
     \<lparr>symbol = ticker, price = dict_get demo_prices ticker (100 + real_of_int (h ticker mod 50))\<rparr>"
| "ticker_quote h (Some b) demo ticker =
     (if demo
      then \<lparr>symbol = ticker, price = dict_get demo_prices ticker (100 + real_of_int (h ticker mod 50))\<rparr>
      else (case get_latest_trade b ticker of
              Inr p \<Rightarrow> \<lparr>symbol = ticker, price = p\<rparr>
            | Inl e \<Rightarrow> \<lparr>symbol = ticker, price = dict_get demo_prices ticker 100\<rparr>))"

fun ticker_loop :: "(string \<Rightarrow> int) \<Rightarrow> broker option \<Rightarrow> bool \<Rightarrow> string list \<Rightarrow> quote list \<Rightarrow> quote list" where
  "ticker_loop h api demo [] ticker_data = ticker_data"
| "ticker_loop h api demo (ticker # ts) ticker_data =
     ticker_loop h api demo ts (ticker_data @ [ticker_quote h api demo ticker])"

text \<open>\<^verbatim>\<open>get_ticker_data(api, tickers, demo_mode)\<close>: the loop over \<^verbatim>\<open>tickers[:4]\<close>.\<close>

definition get_ticker_data :: "(string \<Rightarrow> int) \<Rightarrow> broker option \<Rightarrow> string list \<Rightarrow> bool \<Rightarrow> quote list" where
  "get_ticker_data h api tickers demo_mode = ticker_loop h api demo_mode (take 4 tickers) []"

text \<open>
  The loop of \<^verbatim>\<open>get_bot_status_json\<close> over \<^verbatim>\<open>tickers[:3]\<close>, which fills the
  dictionary \<^verbatim>\<open>ticker_prices\<close>.
\<close>

fun status_ticker_loop :: "broker \<Rightarrow> string list \<Rightarrow> (string \<times> pyval) list \<Rightarrow> (string \<times> pyval) list" where
  "status_ticker_loop b [] ticker_prices = ticker_prices"
| "status_ticker_loop b (ticker # ts) ticker_prices =
     status_ticker_loop b ts
       (dict_set ticker_prices ticker
          (case get_latest_trade b ticker of Inr p \<Rightarrow> PFloat p | Inl e \<Rightarrow> PInt 0))"

definition status_ticker_prices :: "broker \<Rightarrow> string list \<Rightarrow> (string \<times> pyval) list" where
  "status_ticker_prices b tickers = status_ticker_loop b (take 3 tickers) []"

section \<open>The trade ledger\<close>

text \<open>\<^verbatim>\<open>df.drop(columns=[c])\<close>: the label and its cell leave every row.\<close>

definition df_drop :: "string \<Rightarrow> dataframe \<Rightarrow> dataframe" where
  "df_drop c df =
     \<lparr>columns = filter (\<lambda>k. k \<noteq> c) (columns df),
      rows = map (\<lambda>r. map snd (filter (\<lambda>kv. fst kv \<noteq> c) (zip (columns df) r))) (rows df)\<rparr>"

text \<open>\<^verbatim>\<open>df.tail(n)\<close>: the last \<open>n\<close> rows, all of them when there are fewer.\<close>

definition df_tail :: "nat \<Rightarrow> dataframe \<Rightarrow> dataframe" where
  "df_tail n df = \<lparr>columns = columns df, rows = drop (length (rows df) - n) (rows df)\<rparr>"

text \<open>\<^verbatim>\<open>dict(pairs)\<close>: the pairs are stored one after the other.\<close>

definition dict_of :: "('k \<times> 'v) list \<Rightarrow> ('k \<times> 'v) list" where
  "dict_of kvs = foldl (\<lambda>d kv. dict_set d (fst kv) (snd kv)) [] kvs"

text \<open>\<^verbatim>\<open>df.to_dict('records')\<close>: one dictionary from label to cell for each row.\<close>

definition to_records :: "dataframe \<Rightarrow> (string \<times> pyval) list list" where
  "to_records df = map (\<lambda>r. dict_of (zip (columns df) r)) (rows df)"

text \<open>
  The two statements both readers share:
  \<^verbatim>\<open>if UNNAMED_COLUMN in df.columns: df = df.drop(columns=[UNNAMED_COLUMN])\<close>.
\<close>

definition drop_unnamed :: "dataframe \<Rightarrow> dataframe" where
  "drop_unnamed df = (if UNNAMED_COLUMN \<in> set (columns df) then df_drop UNNAMED_COLUMN df else df)"

text \<open>
  \<^verbatim>\<open>get_dashboard_trading_history\<close>: the last ten records; a failure of the read is
  swallowed and leaves the empty list.
\<close>

definition get_dashboard_trading_history :: "env \<Rightarrow> (string \<times> pyval) list list" where
  "get_dashboard_trading_history env =
     (if orders_exists env
      then (case read_csv env of
              Inl e \<Rightarrow> []
            | Inr df \<Rightarrow> to_records (df_tail 10 (drop_unnamed df)))
      else [])"

text \<open>
  The ledger block of \<^verbatim>\<open>get_bot_status_json\<close>: \<^verbatim>\<open>trades_count\<close> and
  \<^verbatim>\<open>recent_trades\<close> (the last five records).
\<close>

definition status_trades :: "env \<Rightarrow> nat \<times> (string \<times> pyval) list list" where
  "status_trades env =
     (if orders_exists env
      then (case read_csv env of
              Inl e \<Rightarrow> (0, [])
            | Inr df \<Rightarrow> (length (rows (drop_unnamed df)), to_records (df_tail 5 (drop_unnamed df))))
      else (0, []))"

section \<open>The status object\<close>

text \<open>
  The block under the comment \<^verbatim>\<open># Load configuration\<close>, the same in both
  operations: parse the credential file, read the two keys, connect.
\<close>

definition load_configuration :: "env \<Rightarrow> exn + broker" where
  "load_configuration env =
     (case auth_json env of
        Inl e \<Rightarrow> Inl e
      | Inr key \<Rightarrow>
          (case py_getitem key ''APCA-API-KEY-ID'' of
             Inl e \<Rightarrow> Inl e
           | Inr key_id \<Rightarrow>
               (case py_getitem key ''APCA-API-SECRET-KEY'' of
                  Inl e \<Rightarrow> Inl e
                | Inr secret \<Rightarrow> alpaca_rest env key_id secret)))"

text \<open>The object returned when a configuration file does not exist.\<close>

definition demo_status :: "env \<Rightarrow> pyval" where
  "demo_status env =
     PDict [(''mode'', PStr ''DEMO''),
            (''status'', PStr ''Demo Mode Active''),
            (''message'', PStr ''Auth files not included for security - DevOps pipeline working!''),
            (''timestamp'', PStr (now_iso env)),
            (''demo_data'',
               PDict [(''market_open'', PBool True),
                      (''portfolio_value'', PFloat 25000.0),
                      (''cash'', PFloat 25000.0),
                      (''tickers'',
                         PDict [(''AAPL'', PFloat 175.25), (''TSLA'', PFloat 245.80),
                                (''AMZN'', PFloat 135.90), (''MA'', PFloat 425.60)])])]"

text \<open>The object returned by the handler \<^verbatim>\<open>except Exception as e\<close>.\<close>

definition error_status :: "exn \<Rightarrow> pyval" where
  "error_status e =
     PDict [(''error'', PStr (str_exn e)),
            (''status'', PStr ''Error''),
            (''message'', PStr ''Unable to fetch bot status - falling back to demo mode''),
            (''demo_data'',
               PDict [(''portfolio_value'', PFloat 25000.0),
                      (''cash'', PFloat 25000.0),
                      (''tickers'', PDict [(''AAPL'', PFloat 175.25), (''TSLA'', PFloat 245.80)])])]"

text \<open>
  The object built when every mandatory read succeeded. The three conversions
  \<^verbatim>\<open>float(account. ...)\<close> are evaluated in the order of the dictionary display.
\<close>

definition live_status ::
  "env \<Rightarrow> account \<Rightarrow> clock \<Rightarrow> position list \<Rightarrow> (string \<times> pyval) list \<Rightarrow> exn + pyval" where
  "live_status env acct clk positions ticker_prices =
     (case cash acct of
        Inl e \<Rightarrow> Inl e
      | Inr c \<Rightarrow>
          (case portfolio_value acct of
             Inl e \<Rightarrow> Inl e
           | Inr pv \<Rightarrow>
               (case buying_power acct of
                  Inl e \<Rightarrow> Inl e
                | Inr bp \<Rightarrow>
                    Inr (PDict
                      [(''timestamp'', PStr (now_iso env)),
                       (''market_open'', PBool (is_open clk)),
                       (''next_open'', PStr (next_open clk)),
                       (''account'',
                          PDict [(''cash'', PFloat c),
                                 (''portfolio_value'', PFloat pv),
                                 (''buying_power'', PFloat bp),
                                 (''positions_count'', PInt (int (length positions)))]),
                       (''bot'',
                          PDict [(''first_trade_made'', PBool (first_trade_exists env)),
                                 (''mode'', PStr (if first_trade_exists env
                                                  then ''1-minute analysis''
                                                  else ''30-minute analysis''))]),
                       (''tickers'', PDict ticker_prices),
                       (''trading'',
                          PDict [(''total_trades'', PInt (int (fst (status_trades env)))),
                                 (''recent_trades'', PList (map PDict (snd (status_trades env))))])]))))"

text \<open>The body of the \<^verbatim>\<open>try\<close> of \<^verbatim>\<open>get_bot_status_json\<close>.\<close>

definition status_body :: "env \<Rightarrow> exn + pyval" where
  "status_body env =
     (if \<not> auth_exists env \<or> \<not> tickers_exists env then Inr (demo_status env)
      else (case load_configuration env of
              Inl e \<Rightarrow> Inl e
            | Inr api \<Rightarrow>
                (case get_account api of
                   Inl e \<Rightarrow> Inl e
                 | Inr acct \<Rightarrow>
                     (case get_clock api of
                        Inl e \<Rightarrow> Inl e
                      | Inr clk \<Rightarrow>
                          (case list_positions api of
                             Inl e \<Rightarrow> Inl e
                           | Inr positions \<Rightarrow>
                               (case tickers_file env of
                                  Inl e \<Rightarrow> Inl e
                                | Inr tickers \<Rightarrow>
                                    live_status env acct clk positions
                                      (status_ticker_prices api tickers)))))))"

text \<open>
  \<^verbatim>\<open>get_bot_status_json\<close>: the body under its handler. The result is the object
  that is serialised; \<open>Inl\<close> would be an exception reaching the caller.
\<close>

definition get_bot_status_json :: "env \<Rightarrow> exn + pyval" where
  "get_bot_status_json env =
     (case status_body env of
        Inr status \<Rightarrow> Inr status
      | Inl e \<Rightarrow> Inr (error_status e))"

section \<open>The dashboard page\<close>

text \<open>
  The dictionary \<^verbatim>\<open>load_dashboard_data\<close> returns. The key \<^verbatim>\<open>demo_mode\<close> is
  present in the demo data only, hence the option.
\<close>

record dashboard_data =
  data_api :: "broker option"
  data_account :: account
  data_clock :: clock
  data_positions :: "position list"
  data_current_time :: string
  data_tickers :: "string list"
  data_demo_mode :: "bool option"

definition get_demo_data :: "env \<Rightarrow> dashboard_data" where
  "get_demo_data env =
     \<lparr>data_api = None,
      data_account = \<lparr>cash = Inr 25000.0, portfolio_value = Inr 25000.0, buying_power = Inr 50000.0,
                       pattern_day_trader = False, daytrade_count = 0\<rparr>,
      data_clock = \<lparr>is_open = True, next_open = ''2025-10-28 09:30:00-04:00''\<rparr>,
      data_positions = [],
      data_current_time = now_et env,
      data_tickers = [''AAPL'', ''TSLA'', ''AMZN'', ''MA''],
      data_demo_mode = Some True\<rparr>"

text \<open>The body of the \<^verbatim>\<open>try\<close> of \<^verbatim>\<open>load_dashboard_data\<close>.\<close>

definition load_body :: "env \<Rightarrow> exn + dashboard_data" where
  "load_body env =
     (if \<not> auth_exists env \<or> \<not> tickers_exists env then Inr (get_demo_data env)
      else (case load_configuration env of
              Inl e \<Rightarrow> Inl e
            | Inr api \<Rightarrow>
                (case get_account api of
                   Inl e \<Rightarrow> Inl e
                 | Inr acct \<Rightarrow>
                     (case get_clock api of
                        Inl e \<Rightarrow> Inl e
                      | Inr clk \<Rightarrow>
                          (case list_positions api of
                             Inl e \<Rightarrow> Inl e
                           | Inr positions \<Rightarrow>
                               (case tickers_file env of
                                  Inl e \<Rightarrow> Inl e
                                | Inr tickers \<Rightarrow>
                                    Inr \<lparr>data_api = Some api,
                                         data_account = acct,
                                         data_clock = clk,
                                         data_positions = positions,
                                         data_current_time = now_et env,
                                         data_tickers = tickers,
                                         data_demo_mode = None\<rparr>))))))"

definition load_dashboard_data :: "env \<Rightarrow> dashboard_data" where
  "load_dashboard_data env =
     (case load_body env of
        Inr data \<Rightarrow> data
      | Inl e \<Rightarrow> get_demo_data env)"

text \<open>
  The arguments \<^verbatim>\<open>generate_dashboard_html\<close> hands to the page template. The page
  text is a function of them, so a page is represented by the state it shows.
\<close>

record dashboard_state =
  st_clock :: clock
  st_account :: account
  st_positions :: "position list"
  st_bot_mode :: string
  st_first_trade_made :: bool
  st_ticker_data :: "quote list"
  st_trading_history :: "(string \<times> pyval) list list"
  st_demo_mode :: bool

datatype html =
    MainHtml dashboard_state
  | ErrorHtml string string

text \<open>
  The format \<^verbatim>\<open>:,.2f\<close> of the history rows accepts numbers (a \<^verbatim>\<open>bool\<close> is one)
  and raises on everything else.
\<close>

fun format_money :: "pyval \<Rightarrow> exn + unit" where
  "format_money (PInt i) = Inr ()"
| "format_money (PFloat x) = Inr ()"
| "format_money PNaN = Inr ()"
| "format_money (PBool b) = Inr ()"
| "format_money (PStr s) = Inl (Exn ''Unknown format code f for object of type str'')"
| "format_money v = Inl (Exn ''unsupported format string passed to __format__'')"

text \<open>\<^verbatim>\<open>trade['Type'].upper()\<close>: only a string has the method.\<close>

fun upper_method :: "pyval \<Rightarrow> exn + unit" where
  "upper_method (PStr s) = Inr ()"
| "upper_method v = Inl (Exn ''object has no attribute upper'')"

text \<open>
  One row of \<^verbatim>\<open>generate_history_html\<close>: the subscripts and conversions in the order
  the row evaluates them; the first that fails is the one raised.
\<close>

definition history_row :: "(string \<times> pyval) list \<Rightarrow> exn + unit" where
  "history_row trade =
     (case dict_item trade ''Type'' of
        Inl e \<Rightarrow> Inl e
      | Inr ty \<Rightarrow>
          (case dict_item trade ''Time'' of
             Inl e \<Rightarrow> Inl e
           | Inr tm \<Rightarrow>
               (case upper_method ty of
                  Inl e \<Rightarrow> Inl e
                | Inr u \<Rightarrow>
                    (case dict_item trade ''Ticker'' of
                       Inl e \<Rightarrow> Inl e
                     | Inr tk \<Rightarrow>
                         (case dict_item trade ''Total'' of
                            Inl e \<Rightarrow> Inl e
                          | Inr amount \<Rightarrow> format_money amount)))))"

fun history_rows :: "(string \<times> pyval) list list \<Rightarrow> exn + unit" where
  "history_rows [] = Inr ()"
| "history_rows (trade # trades) =
     (case history_row trade of
        Inl e \<Rightarrow> Inl e
      | Inr u \<Rightarrow> history_rows trades)"

text \<open>
  \<^verbatim>\<open>generate_history_html\<close>: whether rendering the list raises. An empty list gives
  the fixed block; otherwise the rows of \<^verbatim>\<open>trading_history[-5:]\<close> are rendered.
\<close>

definition generate_history_html :: "(string \<times> pyval) list list \<Rightarrow> exn + unit" where
  "generate_history_html trading_history =
     (if trading_history = [] then Inr ()
      else history_rows (drop (length trading_history - 5) trading_history))"

text \<open>
  \<^verbatim>\<open>generate_main_html_template\<close>: the page for a state, or the first exception among
  the expressions the template interpolates. The ticker cards format a float and do not
  raise.
\<close>

definition generate_main_html_template :: "dashboard_state \<Rightarrow> exn + html" where
  "generate_main_html_template st =
     (case cash (st_account st) of
        Inl e \<Rightarrow> Inl e
      | Inr c \<Rightarrow>
          (case portfolio_value (st_account st) of
             Inl e \<Rightarrow> Inl e
           | Inr pv \<Rightarrow>
               (case buying_power (st_account st) of
                  Inl e \<Rightarrow> Inl e
                | Inr bp \<Rightarrow>
                    (case generate_history_html (st_trading_history st) of
                       Inl e \<Rightarrow> Inl e
                     | Inr u \<Rightarrow> Inr (MainHtml st)))))"

text \<open>The body of the \<^verbatim>\<open>try\<close> of \<^verbatim>\<open>generate_dashboard_html\<close>.\<close>

definition dashboard_body :: "env \<Rightarrow> dashboard_data \<Rightarrow> exn + html" where
  "dashboard_body env data =
     (let demo_mode = (case data_demo_mode data of Some b \<Rightarrow> b | None \<Rightarrow> False);
          ticker_data = get_ticker_data (py_hash env) (data_api data) (data_tickers data) demo_mode;
          trading_history = get_dashboard_trading_history env;
          first_trade_made = first_trade_exists env;
          bot_mode = (if demo_mode then ''DEMO MODE - Live API Not Connected''
                      else if first_trade_made then ''1-minute analysis''
                      else ''30-minute analysis (first trade)'')
      in generate_main_html_template
           \<lparr>st_clock = data_clock data,
            st_account = data_account data,
            st_positions = data_positions data,
            st_bot_mode = bot_mode,
            st_first_trade_made = first_trade_made,
            st_ticker_data = ticker_data,
            st_trading_history = trading_history,
            st_demo_mode = demo_mode\<rparr>)"

text \<open>
  \<^verbatim>\<open>generate_dashboard_html\<close>. The data is a record here, never the empty
  dictionary the source tests for first. \<open>Inl\<close> would be an exception reaching the
  caller.
\<close>

definition generate_dashboard_html :: "env \<Rightarrow> exn + html" where
  "generate_dashboard_html env =
     (case dashboard_body env (load_dashboard_data env) of
        Inr page \<Rightarrow> Inr page
      | Inl e \<Rightarrow> Inr (ErrorHtml ''Dashboard Error'' (''Error generating dashboard: '' @ str_exn e)))"

section \<open>Observations and sample requests\<close>

text \<open>Reading a key of a status object: \<open>None\<close> when the value is no dictionary or the key is absent.\<close>

fun py_get :: "string \<Rightarrow> pyval \<Rightarrow> pyval option" where
  "py_get k (PDict d) = map_of d k"
| "py_get k v = None"

text \<open>
  A request on which the theorems below are evaluated: both configuration files exist,
  the broker answers every mandatory call, the price fetch fails for two of the five
  configured symbols, and the ledger holds two rows behind an index column.
\<close>

definition sample_account :: account where
  "sample_account =
     \<lparr>cash = Inr 1000, portfolio_value = Inr 1500, buying_power = Inr 2000,
      pattern_day_trader = False, daytrade_count = 1\<rparr>"

definition sample_clock :: clock where
  "sample_clock = \<lparr>is_open = False, next_open = ''2025-10-28 09:30:00-04:00''\<rparr>"

definition sample_broker :: broker where
  "sample_broker =
     \<lparr>get_account = Inr sample_account,
      get_clock = Inr sample_clock,
      list_positions = Inr [''AAPL''],
      get_latest_trade = (\<lambda>t. if t = ''TSLA'' \<or> t = ''XYZ'' then Inl (Exn ''no trade'') else Inr 180)\<rparr>"

definition sample_ledger :: dataframe where
  "sample_ledger =
     \<lparr>columns = [''Unnamed: 0'', ''Time'', ''Type'', ''Ticker'', ''Total''],
      rows = [[PInt 0, PStr ''09:31'', PStr ''buy'', PStr ''AAPL'', PFloat 350],
              [PInt 1, PStr ''09:45'', PStr ''sell'', PStr ''AAPL'', PFloat 352]]\<rparr>"

definition sample_env :: env where
  "sample_env =
     \<lparr>auth_exists = True,
      tickers_exists = True,
      auth_json = Inr (PDict [(''APCA-API-KEY-ID'', PStr ''id''), (''APCA-API-SECRET-KEY'', PStr ''secret'')]),
      alpaca_rest = (\<lambda>key_id secret. Inr sample_broker),
      tickers_file = Inr [''AAPL'', ''TSLA'', ''XYZ'', ''MA'', ''AMZN''],
      orders_exists = True,
      read_csv = Inr sample_ledger,
      first_trade_exists = False,
      now_iso = ''2025-10-27T10:00:00'',
      now_et = ''2025-10-27 10:00:00-04:00'',
      py_hash = (\<lambda>s. 7)\<rparr>"

text \<open>The three kinds of answer.\<close>

datatype mode = DEMO | LIVE | ERROR





text \<open>
  The exception of the first mandatory broker call that fails, in the order the server
  makes the calls; \<open>None\<close> when all three succeed.
\<close>

definition mandatory_failure :: "broker \<Rightarrow> exn option" where
  "mandatory_failure b =
     (case get_account b of
        Inl e \<Rightarrow> Some e
      | Inr acct \<Rightarrow>
          (case get_clock b of
             Inl e \<Rightarrow> Some e
           | Inr clk \<Rightarrow>
               (case list_positions b of
                  Inl e \<Rightarrow> Some e
                | Inr positions \<Rightarrow> None)))"

text \<open>
  Some step of the live branch of \<^verbatim>\<open>load_dashboard_data\<close> raises: the configuration,
  one of the three broker calls, or the read of the ticker file.
\<close>

definition live_load_fails :: "env \<Rightarrow> bool" where
  "live_load_fails env =
     (case load_configuration env of
        Inl e \<Rightarrow> True
      | Inr b \<Rightarrow> isl (get_account b) \<or> isl (get_clock b) \<or> isl (list_positions b)
                 \<or> isl (tickers_file env))"

text \<open>
  Variants of the sample request: the broker refuses the account call; the credential
  file does not parse; the credential file lacks the secret key; both configuration
  files are absent.
\<close>

definition outage_env :: env where
  "outage_env =
     sample_env\<lparr>alpaca_rest :=
       (\<lambda>key_id secret. Inr (sample_broker\<lparr>get_account := Inl (Exn ''broker unavailable'')\<rparr>))\<rparr>"




section \<open>Properties of the loops\<close>

lemma ticker_loop_map:
  "ticker_loop h api demo ts acc = acc @ map (ticker_quote h api demo) ts"
  by (induction ts arbitrary: acc) simp_all

lemma get_ticker_data_map:
  "get_ticker_data h api tickers demo = map (ticker_quote h api demo) (take 4 tickers)"
  by (simp add: get_ticker_data_def ticker_loop_map)

lemma symbol_ticker_quote: "symbol (ticker_quote h api demo t) = t"
  by (cases api) (simp_all split: sum.splits)

lemma map_of_dict_set: "map_of (dict_set d k v) = (map_of d)(k \<mapsto> v)"
  by (induction d k v rule: dict_set.induct) (auto simp: fun_eq_iff)

lemma keys_dict_set: "fst ` set (dict_set d k v) = insert k (fst ` set d)"
  by (induction d k v rule: dict_set.induct) auto

lemma distinct_dict_set: "distinct (map fst d) \<Longrightarrow> distinct (map fst (dict_set d k v))"
  by (induction d k v rule: dict_set.induct) (auto simp: keys_dict_set)

lemma map_of_status_ticker_loop:
  "map_of (status_ticker_loop b ts acc) t =
     (if t \<in> set ts then Some (case get_latest_trade b t of Inr p \<Rightarrow> PFloat p | Inl e \<Rightarrow> PInt 0) else map_of acc t)"
  by (induction ts arbitrary: acc) (auto simp: map_of_dict_set)

lemma keys_status_ticker_loop:
  "fst ` set (status_ticker_loop b ts acc) = fst ` set acc \<union> set ts"
  by (induction ts arbitrary: acc) (auto simp: keys_dict_set)

lemma distinct_status_ticker_loop:
  "distinct (map fst acc) \<Longrightarrow> distinct (map fst (status_ticker_loop b ts acc))"
  by (induction ts arbitrary: acc) (auto simp: distinct_dict_set)

section \<open>Properties of the ledger readers\<close>

lemma zip_drop_column:
  "zip (filter (\<lambda>k. k \<noteq> c) cols) (map snd (filter (\<lambda>kv. fst kv \<noteq> c) (zip cols r)))
     = filter (\<lambda>kv. fst kv \<noteq> c) (zip cols r)"
proof (induction cols arbitrary: r)
  case Nil
  then show ?case by simp
next
  case (Cons k cols)
  then show ?case by (cases r) simp_all
qed

lemma keys_dict_fold:
  "fst ` set (foldl (\<lambda>d kv. dict_set d (fst kv) (snd kv)) acc kvs) = fst ` set acc \<union> fst ` set kvs"
  by (induction kvs arbitrary: acc) (auto simp: keys_dict_set)

lemma keys_dict_of: "fst ` set (dict_of kvs) = fst ` set kvs"
  by (simp add: dict_of_def keys_dict_fold)

lemma dict_set_fresh: "k \<notin> fst ` set d \<Longrightarrow> dict_set d k v = d @ [(k, v)]"
  by (induction d k v rule: dict_set.induct) auto

lemma dict_fold_distinct:
  "distinct (map fst (acc @ kvs)) \<Longrightarrow>
     foldl (\<lambda>d kv. dict_set d (fst kv) (snd kv)) acc kvs = acc @ kvs"
proof (induction kvs arbitrary: acc)
  case Nil
  then show ?case by simp
next
  case (Cons kv kvs)
  from Cons.prems have fresh: "fst kv \<notin> fst ` set acc"
    by auto
  from Cons.prems have "distinct (map fst ((acc @ [kv]) @ kvs))"
    by simp
  from Cons.IH [OF this] fresh show ?case
    by (simp add: dict_set_fresh)
qed

lemma dict_of_distinct: "distinct (map fst kvs) \<Longrightarrow> dict_of kvs = kvs"
  using dict_fold_distinct [of "[]" kvs] by (simp add: dict_of_def)

lemma records_after_drop:
  "to_records (df_tail n (df_drop c df)) =
     map (\<lambda>r. dict_of (filter (\<lambda>kv. fst kv \<noteq> c) (zip (columns df) r)))
       (drop (length (rows df) - n) (rows df))"
  by (simp add: to_records_def df_tail_def df_drop_def drop_map zip_drop_column)

lemma distinct_filtered_zip:
  "distinct cols \<Longrightarrow> distinct (map fst (filter P (zip cols r)))"
proof (induction cols arbitrary: r)
  case Nil
  then show ?case by simp
next
  case (Cons c cols)
  show ?case
  proof (cases r)
    case Nil
    then show ?thesis by simp
  next
    case (Cons x xs)
    from Cons.prems have "c \<notin> fst ` set (zip cols xs)"
      by (auto dest: set_zip_leftD)
    with Cons.prems Cons.IH [of xs] Cons show ?thesis
      by auto
  qed
qed

lemma recent_records:
  assumes "UNNAMED_COLUMN \<in> set (columns df)"
  shows "(\<forall>r \<in> set (to_records (df_tail n (drop_unnamed df))). UNNAMED_COLUMN \<notin> fst ` set r)
         \<and> length (to_records (df_tail n (drop_unnamed df))) = min n (length (rows df))
         \<and> (\<forall>i < min n (length (rows df)).
               to_records (df_tail n (drop_unnamed df)) ! i =
                 dict_of (filter (\<lambda>kv. fst kv \<noteq> UNNAMED_COLUMN)
                            (zip (columns df) (rows df ! (length (rows df) - n + i)))))
         \<and> (distinct (columns df) \<longrightarrow>
              (\<forall>i < min n (length (rows df)).
                 to_records (df_tail n (drop_unnamed df)) ! i =
                   filter (\<lambda>kv. fst kv \<noteq> UNNAMED_COLUMN)
                     (zip (columns df) (rows df ! (length (rows df) - n + i)))))"
proof -
  let ?f = "\<lambda>r. dict_of (filter (\<lambda>kv. fst kv \<noteq> UNNAMED_COLUMN) (zip (columns df) r))"
  have recs: "to_records (df_tail n (drop_unnamed df)) = map ?f (drop (length (rows df) - n) (rows df))"
    using assms by (simp add: drop_unnamed_def records_after_drop)
  have absent: "\<forall>r \<in> set (to_records (df_tail n (drop_unnamed df))). UNNAMED_COLUMN \<notin> fst ` set r"
    unfolding recs by (auto simp: keys_dict_of)
  have len: "length (to_records (df_tail n (drop_unnamed df))) = min n (length (rows df))"
    unfolding recs by auto
  have nth: "\<forall>i < min n (length (rows df)).
               to_records (df_tail n (drop_unnamed df)) ! i = ?f (rows df ! (length (rows df) - n + i))"
    unfolding recs by auto
  have plain: "distinct (columns df) \<longrightarrow>
              (\<forall>i < min n (length (rows df)).
                 to_records (df_tail n (drop_unnamed df)) ! i =
                   filter (\<lambda>kv. fst kv \<noteq> UNNAMED_COLUMN)
                     (zip (columns df) (rows df ! (length (rows df) - n + i))))"
    using nth by (simp add: dict_of_distinct distinct_filtered_zip)
  from absent len nth plain show ?thesis by blast
qed

lemma rows_after_drop: "length (rows (drop_unnamed df)) = length (rows df)"
  by (simp add: drop_unnamed_def df_drop_def)

section \<open>Properties of the status operation\<close>




lemma live_status_shape:
  assumes "live_status env acct clk ps tp = Inr s"
  shows "\<exists>a b c d e g. s = PDict [(''timestamp'', a), (''market_open'', b), (''next_open'', c),
            (''account'', d), (''bot'', e), (''tickers'', PDict tp), (''trading'', g)]"
proof -
  from assms obtain c pv bp where "cash acct = Inr c" "portfolio_value acct = Inr pv" "buying_power acct = Inr bp"
    by (cases "cash acct"; cases "portfolio_value acct"; cases "buying_power acct")
       (simp_all add: live_status_def)
  with assms show ?thesis
    unfolding live_status_def by (simp only: sum.case) blast
qed


lemma status_body_cases:
  assumes "status_body env = Inr s"
  shows "(\<not> auth_exists env \<or> \<not> tickers_exists env) \<and> s = demo_status env
         \<or> auth_exists env \<and> tickers_exists env
           \<and> (\<exists>b acct clk ps ts.
                 load_configuration env = Inr b \<and> get_account b = Inr acct \<and> get_clock b = Inr clk
                 \<and> list_positions b = Inr ps \<and> tickers_file env = Inr ts
                 \<and> live_status env acct clk ps (status_ticker_prices b ts) = Inr s)"
  using assms by (auto simp: status_body_def split: if_splits sum.splits)


lemma status_result:
  "get_bot_status_json env = Inr (case status_body env of Inr s \<Rightarrow> s | Inl e \<Rightarrow> error_status e)"
  by (simp add: get_bot_status_json_def split: sum.splits)

lemma py_get_demo_status:
  "py_get ''tickers'' (demo_status env) = None" "py_get ''bot'' (demo_status env) = None"
  by (simp_all add: demo_status_def)

lemma py_get_error_status:
  "py_get ''tickers'' (error_status e) = None" "py_get ''bot'' (error_status e) = None"
  by (simp_all add: error_status_def)

lemma live_status_tickers:
  assumes "live_status env acct clk ps tp = Inr s"
  shows "py_get ''tickers'' s = Some (PDict tp)"
proof -
  from live_status_shape [OF assms] obtain a b c d e g where
    "s = PDict [(''timestamp'', a), (''market_open'', b), (''next_open'', c),
            (''account'', d), (''bot'', e), (''tickers'', PDict tp), (''trading'', g)]"
    by blast
  then show ?thesis by simp
qed

lemma live_status_bot:
  assumes "live_status env acct clk ps tp = Inr s"
  shows "py_get ''bot'' s =
           Some (PDict [(''first_trade_made'', PBool (first_trade_exists env)),
                        (''mode'', PStr (if first_trade_exists env then ''1-minute analysis''
                                         else ''30-minute analysis''))])"
proof -
  from assms obtain c pv bp where "cash acct = Inr c" "portfolio_value acct = Inr pv" "buying_power acct = Inr bp"
    by (cases "cash acct"; cases "portfolio_value acct"; cases "buying_power acct")
       (simp_all add: live_status_def)
  with assms have "\<exists>a b c d tr. s = PDict [(''timestamp'', a), (''market_open'', b), (''next_open'', c),
            (''account'', d),
            (''bot'', PDict [(''first_trade_made'', PBool (first_trade_exists env)),
                        (''mode'', PStr (if first_trade_exists env then ''1-minute analysis''
                                         else ''30-minute analysis''))]),
            (''tickers'', PDict tp), (''trading'', tr)]"
    unfolding live_status_def by (simp only: sum.case) blast
  then obtain a b c d tr where "s = PDict [(''timestamp'', a), (''market_open'', b), (''next_open'', c),
            (''account'', d),
            (''bot'', PDict [(''first_trade_made'', PBool (first_trade_exists env)),
                        (''mode'', PStr (if first_trade_exists env then ''1-minute analysis''
                                         else ''30-minute analysis''))]),
            (''tickers'', PDict tp), (''trading'', tr)]"
    by blast
  then show ?thesis by simp
qed

lemma status_live_inversion:
  assumes "get_bot_status_json env = Inr s"
      and "py_get ''tickers'' s \<noteq> None \<or> py_get ''bot'' s \<noteq> None"
  shows "\<exists>b acct clk ps ts.
           auth_exists env \<and> tickers_exists env
           \<and> load_configuration env = Inr b \<and> get_account b = Inr acct \<and> get_clock b = Inr clk
           \<and> list_positions b = Inr ps \<and> tickers_file env = Inr ts
           \<and> live_status env acct clk ps (status_ticker_prices b ts) = Inr s"
proof (cases "status_body env")
  case (Inl e)
  with assms(1) have "s = error_status e"
    by (simp add: get_bot_status_json_def)
  with assms(2) show ?thesis
    by (simp add: py_get_error_status)
next
  case (Inr s')
  with assms(1) have eq: "s' = s"
    by (simp add: get_bot_status_json_def)
  from status_body_cases [OF Inr] show ?thesis
  proof
    assume "(\<not> auth_exists env \<or> \<not> tickers_exists env) \<and> s' = demo_status env"
    with eq have "s = demo_status env"
      by simp
    with assms(2) show ?thesis
      by (simp add: py_get_demo_status)
  next
    assume "auth_exists env \<and> tickers_exists env
           \<and> (\<exists>b acct clk ps ts.
                 load_configuration env = Inr b \<and> get_account b = Inr acct \<and> get_clock b = Inr clk
                 \<and> list_positions b = Inr ps \<and> tickers_file env = Inr ts
                 \<and> live_status env acct clk ps (status_ticker_prices b ts) = Inr s')"
    with eq show ?thesis by blast
  qed
qed


lemma status_mandatory_fails:
  assumes "auth_exists env" and "tickers_exists env" and "load_configuration env = Inr b"
      and "mandatory_failure b = Some e"
  shows "get_bot_status_json env = Inr (error_status e)"
  using assms
  by (auto simp: get_bot_status_json_def status_body_def mandatory_failure_def split: sum.splits)


lemma configuration_ignores_ledger:
  "load_configuration (env\<lparr>orders_exists := oe, read_csv := rc\<rparr>) = load_configuration env"
  by (simp add: load_configuration_def cong: sum.case_cong)

lemma live_status_succeeds:
  assumes "live_status env acct clk ps tp = Inr s"
  shows "\<exists>s'. live_status env2 acct clk ps tp = Inr s'"
proof -
  from assms obtain c pv bp where "cash acct = Inr c" "portfolio_value acct = Inr pv" "buying_power acct = Inr bp"
    by (cases "cash acct"; cases "portfolio_value acct"; cases "buying_power acct")
       (simp_all add: live_status_def)
  then show ?thesis
    by (simp add: live_status_def)
qed

lemma status_bot_inversion:
  assumes "get_bot_status_json env = Inr s" and "py_get ''bot'' s = Some bt"
  shows "bt = PDict [(''first_trade_made'', PBool (first_trade_exists env)),
                      (''mode'', PStr (if first_trade_exists env then ''1-minute analysis''
                                       else ''30-minute analysis''))]
         \<and> (\<forall>oe rc. \<exists>s'. get_bot_status_json (env\<lparr>orders_exists := oe, read_csv := rc\<rparr>) = Inr s'
                        \<and> py_get ''bot'' s' = Some bt)"
proof -
  from assms(2) have "py_get ''tickers'' s \<noteq> None \<or> py_get ''bot'' s \<noteq> None"
    by simp
  from status_live_inversion [OF assms(1) this] obtain b acct clk ps ts where
    cfg: "auth_exists env" "tickers_exists env" "load_configuration env = Inr b"
         "get_account b = Inr acct" "get_clock b = Inr clk" "list_positions b = Inr ps"
         "tickers_file env = Inr ts"
    and live: "live_status env acct clk ps (status_ticker_prices b ts) = Inr s"
    by blast
  from live_status_bot [OF live] assms(2)
  have bt: "bt = PDict [(''first_trade_made'', PBool (first_trade_exists env)),
                      (''mode'', PStr (if first_trade_exists env then ''1-minute analysis''
                                       else ''30-minute analysis''))]"
    by simp
  have "\<exists>s'. get_bot_status_json (env\<lparr>orders_exists := oe, read_csv := rc\<rparr>) = Inr s'
                        \<and> py_get ''bot'' s' = Some bt" for oe rc
  proof -
    let ?env = "env\<lparr>orders_exists := oe, read_csv := rc\<rparr>"
    from live_status_succeeds [OF live] obtain s' where
      live': "live_status ?env acct clk ps (status_ticker_prices b ts) = Inr s'"
      by blast
    have "status_body ?env = live_status ?env acct clk ps (status_ticker_prices b ts)"
      using cfg by (simp add: status_body_def configuration_ignores_ledger)
    with live' have "get_bot_status_json ?env = Inr s'"
      by (simp add: get_bot_status_json_def)
    moreover from live_status_bot [OF live'] have "py_get ''bot'' s' = Some bt"
      unfolding bt by simp
    ultimately show ?thesis by blast
  qed
  with bt show ?thesis by blast
qed

section \<open>Properties of the page\<close>




lemma load_fails:
  "live_load_fails env \<Longrightarrow> load_dashboard_data env = get_demo_data env"
  by (auto simp: load_dashboard_data_def load_body_def live_load_fails_def isl_def split: sum.splits)

lemma mandatory_failure_load:
  assumes "load_configuration env = Inr b" and "mandatory_failure b = Some e"
  shows "live_load_fails env"
  using assms by (auto simp: live_load_fails_def mandatory_failure_def isl_def split: sum.splits)





lemma template_result:
  "generate_main_html_template st = Inr p \<Longrightarrow> p = MainHtml st"
  by (auto simp: generate_main_html_template_def split: sum.splits)

lemma page_state:
  assumes "generate_dashboard_html env = Inr (MainHtml st)"
  shows "st_demo_mode st = (case data_demo_mode (load_dashboard_data env) of Some b \<Rightarrow> b | None \<Rightarrow> False)
         \<and> st_first_trade_made st = first_trade_exists env
         \<and> st_bot_mode st =
             (if st_demo_mode st then ''DEMO MODE - Live API Not Connected''
              else if first_trade_exists env then ''1-minute analysis''
              else ''30-minute analysis (first trade)'')
         \<and> st_trading_history st = get_dashboard_trading_history env
         \<and> st_ticker_data st =
             get_ticker_data (py_hash env) (data_api (load_dashboard_data env))
               (data_tickers (load_dashboard_data env)) (st_demo_mode st)"
proof -
  from assms have "dashboard_body env (load_dashboard_data env) = Inr (MainHtml st)"
    by (simp add: generate_dashboard_html_def split: sum.splits)
  then have "generate_main_html_template
           \<lparr>st_clock = data_clock (load_dashboard_data env),
            st_account = data_account (load_dashboard_data env),
            st_positions = data_positions (load_dashboard_data env),
            st_bot_mode = (if (case data_demo_mode (load_dashboard_data env) of Some b \<Rightarrow> b | None \<Rightarrow> False)
                      then ''DEMO MODE - Live API Not Connected''
                      else if first_trade_exists env then ''1-minute analysis''
                      else ''30-minute analysis (first trade)''),
            st_first_trade_made = first_trade_exists env,
            st_ticker_data = get_ticker_data (py_hash env) (data_api (load_dashboard_data env))
               (data_tickers (load_dashboard_data env))
               (case data_demo_mode (load_dashboard_data env) of Some b \<Rightarrow> b | None \<Rightarrow> False),
            st_trading_history = get_dashboard_trading_history env,
            st_demo_mode = (case data_demo_mode (load_dashboard_data env) of Some b \<Rightarrow> b | None \<Rightarrow> False)\<rparr>
         = Inr (MainHtml st)"
    by (simp add: dashboard_body_def Let_def)
  from template_result [OF this] show ?thesis
    by simp
qed

lemma load_ignores_ledger:
  "load_dashboard_data (env\<lparr>orders_exists := oe, read_csv := rc\<rparr>) = load_dashboard_data env"
  by (simp add: load_dashboard_data_def load_body_def get_demo_data_def configuration_ignores_ledger
        cong: sum.case_cong)

lemma load_live:
  assumes "auth_exists env" and "tickers_exists env" and "\<not> live_load_fails env"
  shows "data_demo_mode (load_dashboard_data env) = None"
  using assms
  by (auto simp: load_dashboard_data_def load_body_def live_load_fails_def isl_def split: sum.splits)


section \<open>The sample requests, evaluated\<close>

lemma sample_configuration: "load_configuration sample_env = Inr sample_broker"
  by (simp add: load_configuration_def sample_env_def dict_item_def)

lemma sample_status_body:
  "status_body sample_env =
     live_status sample_env sample_account sample_clock [''AAPL'']
       (status_ticker_prices sample_broker [''AAPL'', ''TSLA'', ''XYZ'', ''MA'', ''AMZN''])"
proof -
  have "auth_exists sample_env" "tickers_exists sample_env"
       "tickers_file sample_env = Inr [''AAPL'', ''TSLA'', ''XYZ'', ''MA'', ''AMZN'']"
    by (simp_all add: sample_env_def)
  moreover have "get_account sample_broker = Inr sample_account" "get_clock sample_broker = Inr sample_clock"
       "list_positions sample_broker = Inr [''AAPL'']"
    by (simp_all add: sample_broker_def)
  ultimately show ?thesis
    by (simp add: status_body_def sample_configuration)
qed

lemma sample_ticker_prices:
  "status_ticker_prices sample_broker [''AAPL'', ''TSLA'', ''XYZ'', ''MA'', ''AMZN'']
     = [(''AAPL'', PFloat 180), (''TSLA'', PInt 0), (''XYZ'', PInt 0)]"
  by (simp add: status_ticker_prices_def sample_broker_def)

lemma sample_status:
  "get_bot_status_json sample_env =
     Inr (PDict
       [(''timestamp'', PStr ''2025-10-27T10:00:00''),
        (''market_open'', PBool False),
        (''next_open'', PStr ''2025-10-28 09:30:00-04:00''),
        (''account'', PDict [(''cash'', PFloat 1000), (''portfolio_value'', PFloat 1500),
                             (''buying_power'', PFloat 2000), (''positions_count'', PInt 1)]),
        (''bot'', PDict [(''first_trade_made'', PBool False), (''mode'', PStr ''30-minute analysis'')]),
        (''tickers'', PDict [(''AAPL'', PFloat 180), (''TSLA'', PInt 0), (''XYZ'', PInt 0)]),
        (''trading'', PDict [(''total_trades'', PInt 2),
           (''recent_trades'', PList
              [PDict [(''Time'', PStr ''09:31''), (''Type'', PStr ''buy''), (''Ticker'', PStr ''AAPL''),
                      (''Total'', PFloat 350)],
               PDict [(''Time'', PStr ''09:45''), (''Type'', PStr ''sell''), (''Ticker'', PStr ''AAPL''),
                      (''Total'', PFloat 352)]])])])"
proof -
  have trades: "status_trades sample_env =
      (2, [[(''Time'', PStr ''09:31''), (''Type'', PStr ''buy''), (''Ticker'', PStr ''AAPL''),
                      (''Total'', PFloat 350)],
           [(''Time'', PStr ''09:45''), (''Type'', PStr ''sell''), (''Ticker'', PStr ''AAPL''),
                      (''Total'', PFloat 352)]])"
    by (simp add: status_trades_def sample_env_def sample_ledger_def drop_unnamed_def UNNAMED_COLUMN_def
          df_drop_def df_tail_def to_records_def dict_of_def)
  have fields: "now_iso sample_env = ''2025-10-27T10:00:00''" "first_trade_exists sample_env = False"
    by (simp_all add: sample_env_def)
  show ?thesis
    by (simp add: get_bot_status_json_def sample_status_body sample_ticker_prices live_status_def
          sample_account_def sample_clock_def trades fields)
qed

lemma outage_facts:
  "auth_exists outage_env" "tickers_exists outage_env"
  "load_configuration outage_env = Inr (sample_broker\<lparr>get_account := Inl (Exn ''broker unavailable'')\<rparr>)"
  by (simp_all add: outage_env_def sample_env_def load_configuration_def dict_item_def)



lemma sample_ledger_records:
  "to_records (df_tail 10 (drop_unnamed sample_ledger)) =
       [[(''Time'', PStr ''09:31''), (''Type'', PStr ''buy''), (''Ticker'', PStr ''AAPL''), (''Total'', PFloat 350)],
        [(''Time'', PStr ''09:45''), (''Type'', PStr ''sell''), (''Ticker'', PStr ''AAPL''), (''Total'', PFloat 352)]]"
  by (simp add: sample_ledger_def drop_unnamed_def UNNAMED_COLUMN_def df_drop_def df_tail_def
        to_records_def dict_of_def)

lemma sample_history:
  "get_dashboard_trading_history sample_env =
     [[(''Time'', PStr ''09:31''), (''Type'', PStr ''buy''), (''Ticker'', PStr ''AAPL''), (''Total'', PFloat 350)],
      [(''Time'', PStr ''09:45''), (''Type'', PStr ''sell''), (''Ticker'', PStr ''AAPL''), (''Total'', PFloat 352)]]"
  by (simp add: get_dashboard_trading_history_def sample_env_def sample_ledger_records)

lemma sample_history_renders:
  "generate_history_html
     [[(''Time'', PStr ''09:31''), (''Type'', PStr ''buy''), (''Ticker'', PStr ''AAPL''), (''Total'', PFloat 350)],
      [(''Time'', PStr ''09:45''), (''Type'', PStr ''sell''), (''Ticker'', PStr ''AAPL''), (''Total'', PFloat 352)]]
   = Inr ()"
  by (simp add: generate_history_html_def history_row_def dict_item_def)


lemma sample_quotes:
  "get_ticker_data (\<lambda>s. 7) (Some sample_broker) [''AAPL'', ''TSLA'', ''XYZ'', ''MA'', ''AMZN''] False =
     [\<lparr>symbol = ''AAPL'', price = 180\<rparr>, \<lparr>symbol = ''TSLA'', price = 245.80\<rparr>,
      \<lparr>symbol = ''XYZ'', price = 100\<rparr>, \<lparr>symbol = ''MA'', price = 180\<rparr>]"
  by (simp add: get_ticker_data_def sample_broker_def dict_get_def demo_prices_def)

lemma sample_load:
  "load_dashboard_data sample_env =
     \<lparr>data_api = Some sample_broker, data_account = sample_account, data_clock = sample_clock,
      data_positions = [''AAPL''], data_current_time = ''2025-10-27 10:00:00-04:00'',
      data_tickers = [''AAPL'', ''TSLA'', ''XYZ'', ''MA'', ''AMZN''], data_demo_mode = None\<rparr>"
proof -
  have "auth_exists sample_env" "tickers_exists sample_env"
       "tickers_file sample_env = Inr [''AAPL'', ''TSLA'', ''XYZ'', ''MA'', ''AMZN'']"
       "now_et sample_env = ''2025-10-27 10:00:00-04:00''"
    by (simp_all add: sample_env_def)
  moreover have "get_account sample_broker = Inr sample_account" "get_clock sample_broker = Inr sample_clock"
       "list_positions sample_broker = Inr [''AAPL'']"
    by (simp_all add: sample_broker_def)
  ultimately show ?thesis
    by (simp add: load_dashboard_data_def load_body_def sample_configuration)
qed

lemma sample_page:
  "generate_dashboard_html sample_env =
     Inr (MainHtml
       \<lparr>st_clock = sample_clock,
        st_account = sample_account,
        st_positions = [''AAPL''],
        st_bot_mode = ''30-minute analysis (first trade)'',
        st_first_trade_made = False,
        st_ticker_data =
          [\<lparr>symbol = ''AAPL'', price = 180\<rparr>, \<lparr>symbol = ''TSLA'', price = 245.80\<rparr>,
           \<lparr>symbol = ''XYZ'', price = 100\<rparr>, \<lparr>symbol = ''MA'', price = 180\<rparr>],
        st_trading_history =
          [[(''Time'', PStr ''09:31''), (''Type'', PStr ''buy''), (''Ticker'', PStr ''AAPL''),
            (''Total'', PFloat 350)],
           [(''Time'', PStr ''09:45''), (''Type'', PStr ''sell''), (''Ticker'', PStr ''AAPL''),
            (''Total'', PFloat 352)]],
        st_demo_mode = False\<rparr>)"
proof -
  have env: "py_hash sample_env = (\<lambda>s. 7)" "first_trade_exists sample_env = False"
    by (simp_all add: sample_env_def)
  have body: "dashboard_body sample_env (load_dashboard_data sample_env) =
     generate_main_html_template
       \<lparr>st_clock = sample_clock,
        st_account = sample_account,
        st_positions = [''AAPL''],
        st_bot_mode = ''30-minute analysis (first trade)'',
        st_first_trade_made = False,
        st_ticker_data =
          [\<lparr>symbol = ''AAPL'', price = 180\<rparr>, \<lparr>symbol = ''TSLA'', price = 245.80\<rparr>,
           \<lparr>symbol = ''XYZ'', price = 100\<rparr>, \<lparr>symbol = ''MA'', price = 180\<rparr>],
        st_trading_history =
          [[(''Time'', PStr ''09:31''), (''Type'', PStr ''buy''), (''Ticker'', PStr ''AAPL''),
            (''Total'', PFloat 350)],
           [(''Time'', PStr ''09:45''), (''Type'', PStr ''sell''), (''Ticker'', PStr ''AAPL''),
            (''Total'', PFloat 352)]],
        st_demo_mode = False\<rparr>"
    unfolding sample_load dashboard_body_def env
    by (simp add: sample_quotes sample_history)
  show ?thesis
    unfolding generate_dashboard_html_def body generate_main_html_template_def
    by (simp add: sample_account_def sample_history_renders)
qed

lemma sample_ledger_facts:
  "orders_exists sample_env" "read_csv sample_env = Inr sample_ledger"
  "UNNAMED_COLUMN \<in> set (columns sample_ledger)"
  "distinct (columns sample_ledger)"
  "length (rows sample_ledger) = 2"
  by (simp_all add: sample_env_def sample_ledger_def UNNAMED_COLUMN_def)

section \<open>The claims\<close>

subsection \<open>C1: every request gets an answer\<close>



subsection \<open>C2: a malformed credential file\<close>




subsection \<open>C3: a failed mandatory broker call\<close>

text \<open>
  C3, as stated, promises an empty ticker sequence. With the account call refused the
  status object carries the two fixed demo tickers, and the data loaded for the page the
  four default symbols.
\<close>

theorem C3_counterexample:
  "get_bot_status_json outage_env =
     Inr (PDict [(''error'', PStr ''broker unavailable''),
                 (''status'', PStr ''Error''),
                 (''message'', PStr ''Unable to fetch bot status - falling back to demo mode''),
                 (''demo_data'',
                    PDict [(''portfolio_value'', PFloat 25000),
                           (''cash'', PFloat 25000),
                           (''tickers'', PDict [(''AAPL'', PFloat 175.25), (''TSLA'', PFloat 245.80)])])])
   \<and> data_tickers (load_dashboard_data outage_env) = [''AAPL'', ''TSLA'', ''AMZN'', ''MA'']"
proof -
  have "mandatory_failure (sample_broker\<lparr>get_account := Inl (Exn ''broker unavailable'')\<rparr>)
          = Some (Exn ''broker unavailable'')"
    by (simp add: mandatory_failure_def)
  from status_mandatory_fails [OF outage_facts this]
       load_fails [OF mandatory_failure_load [OF outage_facts(3) this]]
  show ?thesis by (simp add: error_status_def get_demo_data_def)
qed

text \<open>
  C3, amended: when the configuration is present and a mandatory broker call fails,
  \<^verbatim>\<open>get_bot_status_json\<close> returns the error object: \<^verbatim>\<open>status\<close> is
  \<^verbatim>\<open>Error\<close>, \<^verbatim>\<open>error\<close> is the message of the failure, there is no trade section,
  and \<^verbatim>\<open>demo_data\<close> holds the fixed amounts and the two demo tickers AAPL and TSLA.
  The data loaded for the page is the demo data.
\<close>

theorem C3_mandatory_failure_payload:
  assumes "auth_exists env" and "tickers_exists env" and "load_configuration env = Inr b"
      and "mandatory_failure b = Some e"
  shows "get_bot_status_json env =
           Inr (PDict [(''error'', PStr (str_exn e)),
                       (''status'', PStr ''Error''),
                       (''message'', PStr ''Unable to fetch bot status - falling back to demo mode''),
                       (''demo_data'',
                          PDict [(''portfolio_value'', PFloat 25000),
                                 (''cash'', PFloat 25000),
                                 (''tickers'', PDict [(''AAPL'', PFloat 175.25), (''TSLA'', PFloat 245.80)])])])
         \<and> load_dashboard_data env = get_demo_data env"
  using status_mandatory_fails [OF assms] load_fails [OF mandatory_failure_load [OF assms(3,4)]]
  by (simp add: error_status_def)

text \<open>The amended C3 on the sample request with the clock call timing out.\<close>

theorem C3_mandatory_failure_payload_witness:
  "mandatory_failure (sample_broker\<lparr>get_clock := Inl (Exn ''timeout'')\<rparr>) = Some (Exn ''timeout'')
   \<and> (case get_bot_status_json
            (sample_env\<lparr>alpaca_rest := (\<lambda>key_id secret. Inr (sample_broker\<lparr>get_clock := Inl (Exn ''timeout'')\<rparr>))\<rparr>)
       of Inr s \<Rightarrow> py_get ''error'' s = Some (PStr ''timeout'') \<and> py_get ''status'' s = Some (PStr ''Error'')
                   \<and> py_get ''trading'' s = None
        | Inl e \<Rightarrow> False)"
proof -
  let ?b = "sample_broker\<lparr>get_clock := Inl (Exn ''timeout'')\<rparr>"
  let ?env = "sample_env\<lparr>alpaca_rest := (\<lambda>key_id secret. Inr ?b)\<rparr>"
  have a: "auth_exists ?env" "tickers_exists ?env" "load_configuration ?env = Inr ?b"
    by (simp_all add: sample_env_def load_configuration_def dict_item_def)
  have m: "mandatory_failure ?b = Some (Exn ''timeout'')"
    by (simp add: mandatory_failure_def sample_broker_def)
  from C3_mandatory_failure_payload [OF a m] m show ?thesis
    by simp
qed

subsection \<open>C4: a failed fetch stays with its symbol\<close>




subsection \<open>C5: how many quotes, and in which order\<close>

text \<open>
  C5, as stated, asks for one cap \<open>K\<close> shared by every ticker loop. The two loops differ:
  on the same four symbols \<^verbatim>\<open>get_ticker_data\<close> returns four quotes and the loop of
  \<^verbatim>\<open>get_bot_status_json\<close> three entries, and the latter, being a dictionary,
  keeps one entry for a symbol listed twice.
\<close>

theorem C5_counterexample:
  "length (get_ticker_data (py_hash sample_env) (Some sample_broker) [''AAPL'', ''TSLA'', ''XYZ'', ''MA''] False) = 4
   \<and> length (status_ticker_prices sample_broker [''AAPL'', ''TSLA'', ''XYZ'', ''MA'']) = 3
   \<and> length (status_ticker_prices sample_broker [''AAPL'', ''AAPL'']) = 1"
  by (simp add: get_ticker_data_def status_ticker_prices_def)

text \<open>
  C5, amended: \<^verbatim>\<open>get_ticker_data\<close> returns exactly \<open>min 4 (length tickers)\<close> quotes,
  whose symbols are the first four input symbols in input order, whatever the demo flag,
  the broker and the fetch outcomes are. The loop of the status operation stops at three
  symbols and reports one entry for each distinct symbol among them.
\<close>

theorem C5_quotes_per_loop:
  "length (get_ticker_data h api tickers demo) = min 4 (length tickers)
   \<and> map symbol (get_ticker_data h api tickers demo) = take 4 tickers
   \<and> distinct (map fst (status_ticker_prices b tickers))
   \<and> fst ` set (status_ticker_prices b tickers) = set (take 3 tickers)
   \<and> length (status_ticker_prices b tickers) = card (set (take 3 tickers))"
proof -
  have len: "length (get_ticker_data h api tickers demo) = min 4 (length tickers)"
    by (simp add: get_ticker_data_map)
  have syms: "map symbol (get_ticker_data h api tickers demo) = take 4 tickers"
    by (simp add: get_ticker_data_map symbol_ticker_quote comp_def)
  have dist: "distinct (map fst (status_ticker_prices b tickers))"
    by (simp add: status_ticker_prices_def distinct_status_ticker_loop)
  have keys: "fst ` set (status_ticker_prices b tickers) = set (take 3 tickers)"
    by (simp add: status_ticker_prices_def keys_status_ticker_loop)
  have "length (status_ticker_prices b tickers) = length (map fst (status_ticker_prices b tickers))"
    by simp
  also have "\<dots> = card (set (map fst (status_ticker_prices b tickers)))"
    using dist by (simp only: distinct_card)
  also have "\<dots> = card (set (take 3 tickers))"
    using keys by simp
  finally have card: "length (status_ticker_prices b tickers) = card (set (take 3 tickers))" .
  from len syms dist keys card show ?thesis by blast
qed

text \<open>The amended C5 on the sample symbols.\<close>

theorem C5_quotes_per_loop_witness:
  "map symbol (get_ticker_data (\<lambda>s. 7) (Some sample_broker) [''AAPL'', ''TSLA'', ''XYZ'', ''MA'', ''AMZN''] False)
     = [''AAPL'', ''TSLA'', ''XYZ'', ''MA'']
   \<and> length (get_ticker_data (\<lambda>s. 7) None [''AAPL'', ''TSLA''] True) = 2
   \<and> length (status_ticker_prices sample_broker [''AAPL'', ''TSLA'', ''XYZ'', ''MA'', ''AMZN'']) = 3"
  using C5_quotes_per_loop [of "\<lambda>s. 7" "Some sample_broker" "[''AAPL'', ''TSLA'', ''XYZ'', ''MA'', ''AMZN'']" False sample_broker]
        C5_quotes_per_loop [of "\<lambda>s. 7" None "[''AAPL'', ''TSLA'']" True sample_broker]
  by simp

subsection \<open>C6: the state without configuration\<close>




subsection \<open>C7: the index column of the ledger\<close>

text \<open>
  C7: when the ledger is read and has a column labelled \<^verbatim>\<open>Unnamed: 0\<close>, no record
  returned by \<^verbatim>\<open>get_dashboard_trading_history\<close> has that key; the records are those
  of the last ten rows, in ledger order, each holding the remaining cells of its row
  (literally so when the labels are distinct). The same holds for the last five rows
  reported by the status operation, whose total is the number of rows.
\<close>

theorem C7_index_column_dropped:
  assumes "orders_exists env" and "read_csv env = Inr df" and "UNNAMED_COLUMN \<in> set (columns df)"
  shows "(\<forall>r \<in> set (get_dashboard_trading_history env). UNNAMED_COLUMN \<notin> fst ` set r)
         \<and> length (get_dashboard_trading_history env) = min 10 (length (rows df))
         \<and> (\<forall>i < min 10 (length (rows df)).
               get_dashboard_trading_history env ! i =
                 dict_of (filter (\<lambda>kv. fst kv \<noteq> UNNAMED_COLUMN)
                            (zip (columns df) (rows df ! (length (rows df) - 10 + i)))))
         \<and> (distinct (columns df) \<longrightarrow>
              (\<forall>i < min 10 (length (rows df)).
                 get_dashboard_trading_history env ! i =
                   filter (\<lambda>kv. fst kv \<noteq> UNNAMED_COLUMN)
                     (zip (columns df) (rows df ! (length (rows df) - 10 + i)))))
         \<and> (\<forall>r \<in> set (snd (status_trades env)). UNNAMED_COLUMN \<notin> fst ` set r)
         \<and> length (snd (status_trades env)) = min 5 (length (rows df))
         \<and> (\<forall>i < min 5 (length (rows df)).
               snd (status_trades env) ! i =
                 dict_of (filter (\<lambda>kv. fst kv \<noteq> UNNAMED_COLUMN)
                            (zip (columns df) (rows df ! (length (rows df) - 5 + i)))))
         \<and> fst (status_trades env) = length (rows df)"
proof -
  have history: "get_dashboard_trading_history env = to_records (df_tail 10 (drop_unnamed df))"
    using assms(1,2) by (simp add: get_dashboard_trading_history_def)
  have recent: "snd (status_trades env) = to_records (df_tail 5 (drop_unnamed df))"
    using assms(1,2) by (simp add: status_trades_def)
  have count: "fst (status_trades env) = length (rows df)"
    using assms(1,2) by (simp add: status_trades_def rows_after_drop)
  from recent_records [OF assms(3), of 10] recent_records [OF assms(3), of 5] count
  show ?thesis
    unfolding history recent by blast
qed

text \<open>C7 on the sample ledger.\<close>

theorem C7_index_column_dropped_witness:
  "UNNAMED_COLUMN \<in> set (columns sample_ledger)
   \<and> length (get_dashboard_trading_history sample_env) = 2
   \<and> get_dashboard_trading_history sample_env ! 1 =
       [(''Time'', PStr ''09:45''), (''Type'', PStr ''sell''), (''Ticker'', PStr ''AAPL''),
        (''Total'', PFloat 352)]"
proof -
  note c7 = C7_index_column_dropped [OF sample_ledger_facts(1,2,3)]
  from c7 have len: "length (get_dashboard_trading_history sample_env) = 2"
    by (simp add: sample_ledger_facts(5))
  from c7 sample_ledger_facts(4)
  have "\<forall>i < min 10 (length (rows sample_ledger)).
          get_dashboard_trading_history sample_env ! i =
            filter (\<lambda>kv. fst kv \<noteq> UNNAMED_COLUMN)
              (zip (columns sample_ledger) (rows sample_ledger ! (length (rows sample_ledger) - 10 + i)))"
    by blast
  moreover have "1 < min 10 (length (rows sample_ledger))"
    by (simp add: sample_ledger_facts(5))
  ultimately have "get_dashboard_trading_history sample_env ! 1 =
            filter (\<lambda>kv. fst kv \<noteq> UNNAMED_COLUMN)
              (zip (columns sample_ledger) (rows sample_ledger ! (length (rows sample_ledger) - 10 + 1)))"
    by blast
  also have "\<dots> = [(''Time'', PStr ''09:45''), (''Type'', PStr ''sell''), (''Ticker'', PStr ''AAPL''),
        (''Total'', PFloat 352)]"
    by (simp add: sample_ledger_def UNNAMED_COLUMN_def)
  finally show ?thesis
    using len sample_ledger_facts(3) by simp
qed

subsection \<open>C8: the bot phase follows the marker file\<close>

text \<open>
  C8: in every live answer the bot mode is decided by the existence of
  \<^verbatim>\<open>FirstTrade.csv\<close> alone. In the status object (only the live one has a
  \<^verbatim>\<open>bot\<close> section) it is \<^verbatim>\<open>1-minute analysis\<close> when the marker exists and
  \<^verbatim>\<open>30-minute analysis\<close> when it does not, and the section is the same for every
  state of the ledger. On a main page without the demo flag it is
  \<^verbatim>\<open>1-minute analysis\<close> or \<^verbatim>\<open>30-minute analysis (first trade)\<close>, and any page the
  same request renders with another ledger shows the same mode.
\<close>

theorem C8_bot_phase_from_marker:
  "(\<forall>s bt. get_bot_status_json env = Inr s \<and> py_get ''bot'' s = Some bt \<longrightarrow>
       py_get ''mode'' bt =
         Some (PStr (if first_trade_exists env then ''1-minute analysis'' else ''30-minute analysis''))
       \<and> (\<forall>oe rc. \<exists>s'. get_bot_status_json (env\<lparr>orders_exists := oe, read_csv := rc\<rparr>) = Inr s'
                        \<and> py_get ''bot'' s' = Some bt))
   \<and> (\<forall>st. generate_dashboard_html env = Inr (MainHtml st) \<and> \<not> st_demo_mode st \<longrightarrow>
       st_bot_mode st =
         (if first_trade_exists env then ''1-minute analysis'' else ''30-minute analysis (first trade)'')
       \<and> st_first_trade_made st = first_trade_exists env
       \<and> (\<forall>oe rc st'. generate_dashboard_html (env\<lparr>orders_exists := oe, read_csv := rc\<rparr>) = Inr (MainHtml st')
              \<longrightarrow> st_bot_mode st' = st_bot_mode st))"
proof (intro conjI allI impI)
  fix s bt
  assume a: "get_bot_status_json env = Inr s \<and> py_get ''bot'' s = Some bt"
  then have inv: "bt = PDict [(''first_trade_made'', PBool (first_trade_exists env)),
                      (''mode'', PStr (if first_trade_exists env then ''1-minute analysis''
                                       else ''30-minute analysis''))]
         \<and> (\<forall>oe rc. \<exists>s'. get_bot_status_json (env\<lparr>orders_exists := oe, read_csv := rc\<rparr>) = Inr s'
                        \<and> py_get ''bot'' s' = Some bt)"
    using status_bot_inversion by blast
  from inv show "py_get ''mode'' bt =
         Some (PStr (if first_trade_exists env then ''1-minute analysis'' else ''30-minute analysis''))"
    by simp
  fix oe rc
  from inv show "\<exists>s'. get_bot_status_json (env\<lparr>orders_exists := oe, read_csv := rc\<rparr>) = Inr s'
                        \<and> py_get ''bot'' s' = Some bt"
    by blast
next
  fix st
  assume a: "generate_dashboard_html env = Inr (MainHtml st) \<and> \<not> st_demo_mode st"
  from a page_state [of env st]
  show "st_bot_mode st =
         (if first_trade_exists env then ''1-minute analysis'' else ''30-minute analysis (first trade)'')"
    by simp
  from a page_state [of env st] show "st_first_trade_made st = first_trade_exists env"
    by simp
  fix oe rc st'
  assume b: "generate_dashboard_html (env\<lparr>orders_exists := oe, read_csv := rc\<rparr>) = Inr (MainHtml st')"
  from a page_state [of env st] page_state [OF b]
  show "st_bot_mode st' = st_bot_mode st"
    by (simp add: load_ignores_ledger)
qed

text \<open>C8 on the sample request, which has no marker file.\<close>

theorem C8_bot_phase_from_marker_witness:
  "(case get_bot_status_json sample_env of
      Inr s \<Rightarrow> (case py_get ''bot'' s of
                  Some bt \<Rightarrow> py_get ''mode'' bt = Some (PStr ''30-minute analysis'')
                | None \<Rightarrow> False)
    | Inl e \<Rightarrow> False)
   \<and> (case generate_dashboard_html sample_env of
        Inr (MainHtml st) \<Rightarrow> \<not> st_demo_mode st \<and> st_bot_mode st = ''30-minute analysis (first trade)''
      | Inr (ErrorHtml title message) \<Rightarrow> False
      | Inl e \<Rightarrow> False)"
proof -
  have marker: "first_trade_exists sample_env = False"
    by (simp add: sample_env_def)
  note c8 = C8_bot_phase_from_marker [of sample_env]
  have "py_get ''mode'' (PDict [(''first_trade_made'', PBool False), (''mode'', PStr ''30-minute analysis'')])
          = Some (PStr (if first_trade_exists sample_env then ''1-minute analysis'' else ''30-minute analysis''))"
    using c8 sample_status by simp
  moreover have "st_bot_mode st =
         (if first_trade_exists sample_env then ''1-minute analysis'' else ''30-minute analysis (first trade)'')"
    if "generate_dashboard_html sample_env = Inr (MainHtml st)" "\<not> st_demo_mode st" for st
    using c8 that by blast
  ultimately show ?thesis
    using sample_status sample_page marker by simp
qed

subsection \<open>C9: on the page, a failed load is the demo\<close>



subsection \<open>C10: a failed fetch is reported as 0 by the status operation\<close>

text \<open>
  C10: whenever \<^verbatim>\<open>get_bot_status_json\<close> returns an object with a top-level
  \<^verbatim>\<open>tickers\<close> section (only the live object has one), every symbol among the first
  three configured symbols is reported there with the integer 0 when its price fetch
  failed, and with its fetched price when the fetch succeeded.
\<close>

theorem C10_failed_fetch_reports_zero:
  assumes "get_bot_status_json env = Inr s"
      and "py_get ''tickers'' s = Some tp"
      and "load_configuration env = Inr b"
      and "tickers_file env = Inr tickers"
      and "t \<in> set (take 3 tickers)"
  shows "py_get t tp = Some (case get_latest_trade b t of Inr p \<Rightarrow> PFloat p | Inl e \<Rightarrow> PInt 0)"
proof -
  from assms(1,2) have "py_get ''tickers'' s \<noteq> None \<or> py_get ''bot'' s \<noteq> None"
    by simp
  from status_live_inversion [OF assms(1) this] assms(3,4)
  obtain acct clk ps where "live_status env acct clk ps (status_ticker_prices b tickers) = Inr s"
    by auto
  then have "py_get ''tickers'' s = Some (PDict (status_ticker_prices b tickers))"
    by (rule live_status_tickers)
  with assms(2) have "tp = PDict (status_ticker_prices b tickers)"
    by simp
  with assms(5) show ?thesis
    by (simp add: status_ticker_prices_def map_of_status_ticker_loop)
qed

text \<open>
  C10 on the sample request: the fetch fails for TSLA and XYZ, which are reported as 0,
  and succeeds for AAPL, which keeps its price.
\<close>

theorem C10_failed_fetch_reports_zero_witness:
  "get_bot_status_json sample_env =
     Inr (PDict
       [(''timestamp'', PStr ''2025-10-27T10:00:00''),
        (''market_open'', PBool False),
        (''next_open'', PStr ''2025-10-28 09:30:00-04:00''),
        (''account'', PDict [(''cash'', PFloat 1000), (''portfolio_value'', PFloat 1500),
                             (''buying_power'', PFloat 2000), (''positions_count'', PInt 1)]),
        (''bot'', PDict [(''first_trade_made'', PBool False), (''mode'', PStr ''30-minute analysis'')]),
        (''tickers'', PDict [(''AAPL'', PFloat 180), (''TSLA'', PInt 0), (''XYZ'', PInt 0)]),
        (''trading'', PDict [(''total_trades'', PInt 2),
           (''recent_trades'', PList
              [PDict [(''Time'', PStr ''09:31''), (''Type'', PStr ''buy''), (''Ticker'', PStr ''AAPL''),
                      (''Total'', PFloat 350)],
               PDict [(''Time'', PStr ''09:45''), (''Type'', PStr ''sell''), (''Ticker'', PStr ''AAPL''),
                      (''Total'', PFloat 352)]])])])
   \<and> get_latest_trade sample_broker ''TSLA'' = Inl (Exn ''no trade'')
   \<and> py_get ''TSLA'' (PDict [(''AAPL'', PFloat 180), (''TSLA'', PInt 0), (''XYZ'', PInt 0)]) = Some (PInt 0)
   \<and> get_latest_trade sample_broker ''AAPL'' = Inr 180
   \<and> py_get ''AAPL'' (PDict [(''AAPL'', PFloat 180), (''TSLA'', PInt 0), (''XYZ'', PInt 0)]) = Some (PFloat 180)"
proof -
  let ?tp = "PDict [(''AAPL'', PFloat 180), (''TSLA'', PInt 0), (''XYZ'', PInt 0)]"
  have tk: "py_get ''tickers'' (PDict
       [(''timestamp'', PStr ''2025-10-27T10:00:00''),
        (''market_open'', PBool False),
        (''next_open'', PStr ''2025-10-28 09:30:00-04:00''),
        (''account'', PDict [(''cash'', PFloat 1000), (''portfolio_value'', PFloat 1500),
                             (''buying_power'', PFloat 2000), (''positions_count'', PInt 1)]),
        (''bot'', PDict [(''first_trade_made'', PBool False), (''mode'', PStr ''30-minute analysis'')]),
        (''tickers'', PDict [(''AAPL'', PFloat 180), (''TSLA'', PInt 0), (''XYZ'', PInt 0)]),
        (''trading'', PDict [(''total_trades'', PInt 2),
           (''recent_trades'', PList
              [PDict [(''Time'', PStr ''09:31''), (''Type'', PStr ''buy''), (''Ticker'', PStr ''AAPL''),
                      (''Total'', PFloat 350)],
               PDict [(''Time'', PStr ''09:45''), (''Type'', PStr ''sell''), (''Ticker'', PStr ''AAPL''),
                      (''Total'', PFloat 352)]])])]) = Some ?tp"
    by simp
  have tf: "tickers_file sample_env = Inr [''AAPL'', ''TSLA'', ''XYZ'', ''MA'', ''AMZN'']"
    by (simp add: sample_env_def)
  have m1: "''TSLA'' \<in> set (take 3 [''AAPL'', ''TSLA'', ''XYZ'', ''MA'', ''AMZN''])"
   and m2: "''AAPL'' \<in> set (take 3 [''AAPL'', ''TSLA'', ''XYZ'', ''MA'', ''AMZN''])"
    by simp_all
  have g1: "get_latest_trade sample_broker ''TSLA'' = Inl (Exn ''no trade'')"
   and g2: "get_latest_trade sample_broker ''AAPL'' = Inr 180"
    by (simp_all add: sample_broker_def)
  from C10_failed_fetch_reports_zero [OF sample_status tk sample_configuration tf m1]
       C10_failed_fetch_reports_zero [OF sample_status tk sample_configuration tf m2]
       sample_status g1 g2
  show ?thesis by simp
qed

end
